theory Spec2Isabelle
  imports Main "HOL-Library.AList"
begin

section \<open>JavaScript string helpers\<close>

text \<open>
  Strings are lists of characters, a character standing for a code unit below 256. The
  sources inspect digits, the comma, the \<^verbatim>\<open>@\<close> and white space only.
\<close>

text \<open>\<^verbatim>\<open>s.split(",")\<close>: the pieces between the separators; the empty string splits
  into one empty piece.\<close>

fun split :: "char \<Rightarrow> string \<Rightarrow> string list" where
  "split sep [] = [[]]"
| "split sep (c # cs) =
     (if c = sep then [] # split sep cs
      else (case split sep cs of
              w # ws \<Rightarrow> (c # w) # ws
            | [] \<Rightarrow> [[c]]))"

text \<open>White space as \<^verbatim>\<open>String.prototype.trim\<close> sees it. A character of the model is a
  code unit below 256; among these the white space and line terminators of JavaScript
  are tab, line feed, vertical tab, form feed, carriage return, space and the no-break
  space U+00A0. The white space above U+00FF (U+FEFF, U+2028, U+2029 and the other space
  separators) is outside the strings of the model.\<close>

definition isWhiteSpace :: "char \<Rightarrow> bool" where
  "isWhiteSpace c \<longleftrightarrow>
     c \<in> set [CHR 0x09, CHR 0x0A, CHR 0x0B, CHR 0x0C, CHR 0x0D, CHR '' '', CHR 0xA0]"

definition trim :: "string \<Rightarrow> string" where
  "trim s = rev (dropWhile isWhiteSpace (rev (dropWhile isWhiteSpace s)))"

text \<open>The class \<^verbatim>\<open>\D\<close> of a regular expression without the unicode flag: every character
  that is not one of \<^verbatim>\<open>0\<close> .. \<^verbatim>\<open>9\<close>.\<close>

definition isDigit :: "char \<Rightarrow> bool" where
  "isDigit c \<longleftrightarrow> c \<in> set ''0123456789''"

text \<open>\<^verbatim>\<open>number.replace(/\D/g, '')\<close>: a scan from the left in which every match, one
  non-digit character, is replaced by the empty string.\<close>

fun replace_nondigits :: "string \<Rightarrow> string" where
  "replace_nondigits [] = []"
| "replace_nondigits (c # cs) =
     (if \<not> isDigit c then replace_nondigits cs else c # replace_nondigits cs)"


section \<open>auth.ts: the list of allowed e-mail addresses\<close>

text \<open>\<^verbatim>\<open>process.env.ALLOWED_EMAILS || ""\<close>: an unset variable and an empty one both give
  the empty string.\<close>

definition env_or_empty :: "string option \<Rightarrow> string" where
  "env_or_empty v = (case v of None \<Rightarrow> [] | Some s \<Rightarrow> s)"

text \<open>src/src/auth.ts, lines 9-11: split on the comma, trim each piece.\<close>

definition ALLOWED_EMAILS :: "string option \<Rightarrow> string list" where
  "ALLOWED_EMAILS v = map trim (split CHR '','' (env_or_empty v))"

text \<open>src/unnamed/part_001, lines 9-12: the same, then the empty pieces are filtered
  out.\<close>

definition ALLOWED_EMAILS_part_001 :: "string option \<Rightarrow> string list" where
  "ALLOWED_EMAILS_part_001 v =
     filter (\<lambda>e. length e > 0) (map trim (split CHR '','' (env_or_empty v)))"

datatype verdict = NoEmailError | UnauthorizedEmail | LoginApproved

text \<open>The verify callback of the Google strategy, the same in both copies:
  \<^verbatim>\<open>profile.emails?.[0]?.value\<close> is the first e-mail of the profile when there is one; a
  missing or empty e-mail is an error; a non-empty allow-list that does not include the
  e-mail blocks the login.\<close>

definition verify :: "string list \<Rightarrow> string list option \<Rightarrow> verdict" where
  "verify allowed emails =
     (let email = (case emails of None \<Rightarrow> None | Some [] \<Rightarrow> None | Some (e # _) \<Rightarrow> Some e) in
      case email of
        None \<Rightarrow> NoEmailError
      | Some e \<Rightarrow>
          if e = [] then NoEmailError
          else if length allowed > 0 \<and> \<not> List.member allowed e then UnauthorizedEmail
          else LoginApproved)"


section \<open>server.ts: data\<close>

type_synonym jid = string

datatype ProbeMethod = Delete | Reaction

datatype Platform = WhatsApp

text \<open>
  Modelled from the spec: the class \<^verbatim>\<open>WhatsAppTracker\<close> of tracker.ts, which is not among
  the sources; server.ts constructs it from the socket and the identity, sets its probe
  method, and calls \<^verbatim>\<open>startTracking\<close> and \<^verbatim>\<open>stopTracking\<close>. The spec's
  Target Session: \<^verbatim>\<open>start()\<close> begins the probe clock, \<^verbatim>\<open>stop()\<close> cancels it, and
  after \<^verbatim>\<open>stop()\<close> the session emits no further samples. The socket is the one the
  constructor received; sockets are numbered in the order \<^verbatim>\<open>makeWASocket\<close> made them.
\<close>

record WhatsAppTracker =
  t_sock :: nat
  t_jid :: jid
  t_probeMethod :: ProbeMethod
  t_isTracking :: bool

definition new_WhatsAppTracker :: "nat \<Rightarrow> jid \<Rightarrow> WhatsAppTracker" where
  "new_WhatsAppTracker k j =
     \<lparr>t_sock = k, t_jid = j, t_probeMethod = Delete, t_isTracking = False\<rparr>"

definition setProbeMethod :: "ProbeMethod \<Rightarrow> WhatsAppTracker \<Rightarrow> WhatsAppTracker" where
  "setProbeMethod m t = t\<lparr>t_probeMethod := m\<rparr>"

definition startTracking :: "WhatsAppTracker \<Rightarrow> WhatsAppTracker" where
  "startTracking t = t\<lparr>t_isTracking := True\<rparr>"

definition stopTracking :: "WhatsAppTracker \<Rightarrow> WhatsAppTracker" where
  "stopTracking t = t\<lparr>t_isTracking := False\<rparr>"

text \<open>An entry of the registry refers to its tracker object: the object lives on after
  the entry is deleted, so tracker objects are kept in a store and named by their index.\<close>

record TrackerEntry =
  tracker :: nat
  platform :: Platform

text \<open>The argument of \<^verbatim>\<open>tracker.onUpdate\<close>; server.ts reads only its \<^verbatim>\<open>devices\<close>.\<close>

record 'd UpdateData =
  devices :: "'d list option"

record 'd DataPoint =
  dp_jid :: jid
  dp_platform :: Platform
  dp_update :: "'d UpdateData"
  dp_timestamp :: nat

datatype 'd event =
    EvQr string
  | EvConnectionOpen
  | EvError jid string
  | EvTrackerUpdate "'d DataPoint" bool
  | EvContactAdded jid string Platform
  | EvProfilePic jid "string option"
  | EvContactName jid string
  | EvContactRemoved jid

text \<open>\<^verbatim>\<open>io.emit\<close> reaches every client, \<^verbatim>\<open>socket.emit\<close> the client of one connection.\<close>

datatype recipient = ToAll | ToSocket nat

record 'd server =
  sock :: "nat option"
  socketsMade :: nat
  isWhatsAppConnected :: bool
  globalProbeMethod :: ProbeMethod
  currentWhatsAppQr :: "string option"
  trackers :: "(jid \<times> TrackerEntry) list"
  objects :: "WhatsAppTracker list"
  historyCache :: "jid \<rightharpoonup> 'd DataPoint list"
  initialContacts :: "jid list"
  contactsFile :: "(jid \<times> Platform) list option"
  historyFile :: "(jid \<rightharpoonup> 'd DataPoint list) option"
  emitted :: "(recipient \<times> 'd event) list"
  console_errors :: "string list"

text \<open>The state when the module has been loaded: \<^verbatim>\<open>loadHistory\<close> and
  \<^verbatim>\<open>loadContacts\<close> have read the two files (an absent file leaves the empty
  cache and no contact), no socket has been made yet.\<close>

definition initial_server :: "(jid \<rightharpoonup> 'd DataPoint list) option \<Rightarrow> (jid \<times> Platform) list option \<Rightarrow> 'd server" where
  "initial_server hf cf =
     \<lparr>sock = None, socketsMade = 0, isWhatsAppConnected = False, globalProbeMethod = Delete,
      currentWhatsAppQr = None, trackers = [], objects = [],
      historyCache = (case hf of None \<Rightarrow> Map.empty | Some h \<Rightarrow> h),
      initialContacts = (case cf of None \<Rightarrow> [] | Some c \<Rightarrow> map fst c),
      contactsFile = cf, historyFile = hf, emitted = [], console_errors = []\<rparr>"

text \<open>What the world outside answers during one call: the replies of
  \<^verbatim>\<open>sock.onWhatsApp\<close> (an exception, or the possibly undefined array of results) and of
  \<^verbatim>\<open>tracker.getProfilePicture\<close>, whether \<^verbatim>\<open>fs.writeFileSync\<close> throws, the clock
  \<^verbatim>\<open>Date.now()\<close>, and the library's constant \<^verbatim>\<open>DisconnectReason.loggedOut\<close>.\<close>

record waResult =
  exists :: bool
  wa_jid :: jid
  notify :: "string option"

record env =
  onWhatsApp :: "jid \<Rightarrow> string + waResult list option"
  getProfilePicture :: "jid \<Rightarrow> string + string option"
  writeFileSync_throws :: "string option"
  now :: nat
  loggedOut :: nat

text \<open>A call either returns or throws; both leave a state behind, since what was
  assigned before a \<^verbatim>\<open>throw\<close> stays assigned.\<close>

datatype 's completion = Normal 's | Throw string 's

fun try_catch :: "'s completion \<Rightarrow> (string \<Rightarrow> 's \<Rightarrow> 's completion) \<Rightarrow> 's completion" where
  "try_catch (Normal s) h = Normal s"
| "try_catch (Throw e s) h = h e s"

definition io_emit :: "'d event \<Rightarrow> 'd server \<Rightarrow> 'd server" where
  "io_emit ev s = s\<lparr>emitted := emitted s @ [(ToAll, ev)]\<rparr>"

definition socket_emit :: "nat \<Rightarrow> 'd event \<Rightarrow> 'd server \<Rightarrow> 'd server" where
  "socket_emit sid ev s = s\<lparr>emitted := emitted s @ [(ToSocket sid, ev)]\<rparr>"

definition console_error :: "string \<Rightarrow> 'd server \<Rightarrow> 'd server" where
  "console_error msg s = s\<lparr>console_errors := console_errors s @ [msg]\<rparr>"

text \<open>The \<^verbatim>\<open>Map\<close> of trackers keeps its keys in insertion order: \<^verbatim>\<open>set\<close> replaces
  the value of a present key in place and appends an absent one (\<^const>\<open>AList.update\<close>),
  \<^verbatim>\<open>delete\<close> removes the key (\<^const>\<open>AList.delete\<close>).\<close>

definition Map_has :: "('k \<times> 'v) list \<Rightarrow> 'k \<Rightarrow> bool" where
  "Map_has m k \<longleftrightarrow> map_of m k \<noteq> None"

definition obj_at :: "'a list \<Rightarrow> nat \<Rightarrow> 'a option" where
  "obj_at os r = (if r < length os then Some (os ! r) else None)"


section \<open>server.ts: persistence helpers\<close>

definition writeContactsFile :: "env \<Rightarrow> (jid \<times> Platform) list \<Rightarrow> 'd server \<Rightarrow> 'd server completion" where
  "writeContactsFile e data s =
     (case writeFileSync_throws e of
        Some err \<Rightarrow> Throw err s
      | None \<Rightarrow> Normal (s\<lparr>contactsFile := Some data\<rparr>))"

definition saveContacts :: "env \<Rightarrow> 'd server \<Rightarrow> 'd server completion" where
  "saveContacts e s =
     try_catch
       (writeContactsFile e (map (\<lambda>(id, entry). (id, platform entry)) (trackers s)) s)
       (\<lambda>err s'. Normal (console_error ''Failed to save contacts:'' s'))"

definition writeHistoryFile :: "env \<Rightarrow> (jid \<rightharpoonup> 'd DataPoint list) \<Rightarrow> 'd server \<Rightarrow> 'd server completion" where
  "writeHistoryFile e data s =
     (case writeFileSync_throws e of
        Some err \<Rightarrow> Throw err s
      | None \<Rightarrow> Normal (s\<lparr>historyFile := Some data\<rparr>))"

definition saveHistory :: "env \<Rightarrow> 'd server \<Rightarrow> 'd server completion" where
  "saveHistory e s =
     try_catch
       (writeHistoryFile e (historyCache s) s)
       (\<lambda>err s'. Normal (console_error ''Failed to save history:'' s'))"

text \<open>The history of one contact; a contact with no entry has none.\<close>

definition history_of :: "'d server \<Rightarrow> jid \<Rightarrow> 'd DataPoint list" where
  "history_of s j = (case historyCache s j of None \<Rightarrow> [] | Some h \<Rightarrow> h)"

text \<open>\<^verbatim>\<open>appendHistory\<close>: a missing entry becomes the empty array; an array longer than
  1000 loses its first element (\<^verbatim>\<open>shift\<close>); the data point is pushed; the cache is
  saved.\<close>

definition appendHistory :: "env \<Rightarrow> jid \<Rightarrow> 'd DataPoint \<Rightarrow> 'd server \<Rightarrow> 'd server completion" where
  "appendHistory e j dataPoint s =
     (let h0 = (case historyCache s j of None \<Rightarrow> [] | Some h \<Rightarrow> h);
          h1 = (if length h0 > 1000 then tl h0 else h0);
          h2 = h1 @ [dataPoint]
      in saveHistory e (s\<lparr>historyCache := (historyCache s)(j \<mapsto> h2)\<rparr>))"

text \<open>A run of appends, each with its own answers of the file system; an exception
  would end the run.\<close>

fun appendHistory_all :: "(env \<times> jid \<times> 'd DataPoint) list \<Rightarrow> 'd server \<Rightarrow> 'd server completion" where
  "appendHistory_all [] s = Normal s"
| "appendHistory_all ((e, j, d) # rest) s =
     (case appendHistory e j d s of
        Normal s' \<Rightarrow> appendHistory_all rest s'
      | Throw err s' \<Rightarrow> Throw err s')"


section \<open>server.ts: tracking\<close>

text \<open>\<^verbatim>\<open>connectToWhatsApp\<close>: \<^verbatim>\<open>makeWASocket\<close> makes a new socket object and the variable
  \<^verbatim>\<open>sock\<close> is assigned it. (The function awaits the credentials first; the model
  takes the call as one step.)\<close>

definition connectToWhatsApp :: "'d server \<Rightarrow> 'd server" where
  "connectToWhatsApp s = s\<lparr>sock := Some (socketsMade s), socketsMade := Suc (socketsMade s)\<rparr>"

definition targetJid :: "string \<Rightarrow> jid" where
  "targetJid number = replace_nondigits number @ ''@s.whatsapp.net''"

text \<open>\<^verbatim>\<open>results?.[0]\<close>: the first result, when there is an array and it has one.\<close>

definition first_result :: "waResult list option \<Rightarrow> waResult option" where
  "first_result results = (case results of Some (r # _) \<Rightarrow> Some r | _ \<Rightarrow> None)"

text \<open>
  \<^verbatim>\<open>startTrackingWhatsApp\<close> is asynchronous: a call runs up to an \<^verbatim>\<open>await\<close> and goes
  on when the awaited promise has settled, and other handlers and other calls run in
  between. The model has one function for each stretch of the body. Each takes the state
  as it is when the stretch begins and the reply that ended the wait, and says whether
  the call goes on to another wait. What a call keeps in its local constants:
\<close>

record tracking_call =
  c_cleanNumber :: string
  c_targetJid :: jid
  c_emitError :: bool

text \<open>The \<^verbatim>\<open>catch\<close> of the function, and its branch for a number that is not found.\<close>

definition catch_error :: "tracking_call \<Rightarrow> string \<Rightarrow> 'd server \<Rightarrow> 'd server" where
  "catch_error c err s =
     (let s' = console_error err s
      in if c_emitError c then io_emit (EvError (c_targetJid c) ''Verification failed'') s'
         else s')"

definition not_on_WhatsApp :: "tracking_call \<Rightarrow> 'd server \<Rightarrow> 'd server" where
  "not_on_WhatsApp c s =
     (if c_emitError c then io_emit (EvError (c_targetJid c) ''Number not on WhatsApp'') s
      else s)"

text \<open>First stretch, lines 430-439: the identity is derived from the number; a number
  whose derived identity is a key of the registry is refused; otherwise
  \<^verbatim>\<open>sock.onWhatsApp(targetJid)\<close> is called (on an undefined \<^verbatim>\<open>sock\<close> that is a
  TypeError, caught) and the call waits for the reply.\<close>

definition tracking_begin :: "string \<Rightarrow> bool \<Rightarrow> 'd server \<Rightarrow> 'd server \<times> tracking_call option" where
  "tracking_begin number emitError s =
     (let c = \<lparr>c_cleanNumber = replace_nondigits number, c_targetJid = targetJid number,
               c_emitError = emitError\<rparr>
      in if Map_has (trackers s) (c_targetJid c) then
           (if emitError
            then io_emit (EvError (c_targetJid c) ''Already tracking this contact'') s
            else s, None)
         else (case sock s of
                 None \<Rightarrow> (catch_error c ''TypeError'' s, None)
               | Some k \<Rightarrow> (s, Some c)))"

text \<open>Second stretch, lines 439-478, entered with the reply of \<^verbatim>\<open>onWhatsApp\<close>: a
  rejection is caught; a number that does not exist is reported; for one that exists a
  tracker is constructed on the socket that is current now, given the probe method and
  registered under the identity the network returned, \<^verbatim>\<open>result.jid\<close>; the cached
  history is sent; the tracker is started and its picture asked for. The tracker object
  is stored once, as \<^verbatim>\<open>startTracking\<close> leaves it. (The variable \<^verbatim>\<open>sock\<close> is never
  assigned undefined, so it is defined here whenever it was in the first stretch.)\<close>

definition tracking_exists :: "tracking_call \<Rightarrow> string + waResult list option \<Rightarrow> 'd server \<Rightarrow> 'd server \<times> jid option" where
  "tracking_exists c reply s =
     (case reply of
        Inl err \<Rightarrow> (catch_error c err s, None)
      | Inr results \<Rightarrow>
          (case first_result results of
             None \<Rightarrow> (not_on_WhatsApp c s, None)
           | Some result \<Rightarrow>
               if \<not> exists result then (not_on_WhatsApp c s, None)
               else (case sock s of
                       None \<Rightarrow> (catch_error c ''TypeError'' s, None)
                     | Some k \<Rightarrow>
                         (let j = wa_jid result;
                              t = setProbeMethod (globalProbeMethod s) (new_WhatsAppTracker k j);
                              r = length (objects s);
                              s1 = s\<lparr>objects := objects s @ [startTracking t],
                                     trackers := AList.update j
                                       \<lparr>tracker = r, platform = WhatsApp\<rparr> (trackers s)\<rparr>;
                              s2 = fold (\<lambda>data. io_emit (EvTrackerUpdate data True))
                                     (case historyCache s1 j of None \<Rightarrow> [] | Some h \<Rightarrow> h) s1
                          in (s2, Some j)))))"

text \<open>Third stretch, lines 478-481, entered with the reply of
  \<^verbatim>\<open>getProfilePicture\<close>: a rejection is caught by the outer \<^verbatim>\<open>catch\<close>; otherwise
  \<^verbatim>\<open>sock.onWhatsApp(result.jid)\<close> is called inside the inner \<^verbatim>\<open>try\<close>, where
  a TypeError counts as a rejection.\<close>

definition tracking_picture :: "tracking_call \<Rightarrow> string + string option \<Rightarrow> 'd server \<Rightarrow> 'd server \<times> string option option" where
  "tracking_picture c reply s =
     (case reply of
        Inl err \<Rightarrow> (catch_error c err s, None)
      | Inr ppUrl \<Rightarrow> (s, Some ppUrl))"

text \<open>Last stretch, lines 481-498, entered with the reply of the second
  \<^verbatim>\<open>onWhatsApp\<close>: a rejection is ignored and the name is the number unless the first
  result has a non-empty \<^verbatim>\<open>notify\<close>; the contact, its picture and its name are
  announced and the contacts are saved.\<close>

definition tracking_name :: "env \<Rightarrow> tracking_call \<Rightarrow> jid \<Rightarrow> string option \<Rightarrow> string + waResult list option \<Rightarrow> 'd server \<Rightarrow> 'd server" where
  "tracking_name e c j ppUrl reply s =
     (let contactName =
            (case reply of
               Inl err \<Rightarrow> c_cleanNumber c
             | Inr contactInfo \<Rightarrow>
                 (case first_result contactInfo of
                    None \<Rightarrow> c_cleanNumber c
                  | Some info \<Rightarrow>
                      (case notify info of
                         None \<Rightarrow> c_cleanNumber c
                       | Some n \<Rightarrow> if n = [] then c_cleanNumber c else n)));
          s3 = io_emit (EvContactAdded j (c_cleanNumber c) WhatsApp) s;
          s4 = io_emit (EvProfilePic j ppUrl) s3;
          s5 = io_emit (EvContactName j contactName) s4
      in case saveContacts e s5 of
           Normal s' \<Rightarrow> s'
         | Throw err s' \<Rightarrow> catch_error c err s')"

text \<open>A call that has begun, carried to its end with nothing running in between: the
  replies are the ones the environment gives.\<close>

definition tracking_continue :: "env \<Rightarrow> tracking_call \<Rightarrow> 'd server \<Rightarrow> 'd server" where
  "tracking_continue e c s =
     (case tracking_exists c (onWhatsApp e (c_targetJid c)) s of
        (s1, None) \<Rightarrow> s1
      | (s1, Some j) \<Rightarrow>
          (case tracking_picture c (getProfilePicture e j) s1 of
             (s2, None) \<Rightarrow> s2
           | (s2, Some ppUrl) \<Rightarrow>
               tracking_name e c j ppUrl
                 (case sock s2 of None \<Rightarrow> Inl ''TypeError'' | Some k \<Rightarrow> onWhatsApp e j) s2))"

text \<open>One whole call, with nothing running in between its stretches. Every exception is
  caught inside, so the call always returns.\<close>

definition startTrackingWhatsApp :: "env \<Rightarrow> string \<Rightarrow> bool \<Rightarrow> 'd server \<Rightarrow> 'd server completion" where
  "startTrackingWhatsApp e number emitError s =
     Normal (case tracking_begin number emitError s of
               (s0, None) \<Rightarrow> s0
             | (s0, Some c) \<Rightarrow> tracking_continue e c s0)"

text \<open>The handler of \<^verbatim>\<open>add-contact\<close>: the number, given as a string or in an object, is
  tracked with \<^verbatim>\<open>emitError\<close> at its default, true.\<close>

definition add_contact :: "env \<Rightarrow> string \<Rightarrow> 'd server \<Rightarrow> 'd server completion" where
  "add_contact e number s = startTrackingWhatsApp e number True s"

text \<open>The handler of \<^verbatim>\<open>remove-contact\<close> on the connection \<open>sid\<close>: a registered
  tracker is stopped, its entry deleted, the removal told to the client and the contacts
  saved; for an identity with no entry nothing is done.\<close>

definition remove_contact :: "env \<Rightarrow> nat \<Rightarrow> jid \<Rightarrow> 'd server \<Rightarrow> 'd server completion" where
  "remove_contact e sid j s =
     (case map_of (trackers s) j of
        Some entry \<Rightarrow>
          (let r = tracker entry;
               s1 = s\<lparr>objects := (if r < length (objects s)
                                   then (objects s)[r := stopTracking (objects s ! r)]
                                   else objects s)\<rparr>;
               s2 = s1\<lparr>trackers := AList.delete j (trackers s1)\<rparr>;
               s3 = socket_emit sid (EvContactRemoved j) s2
           in saveContacts e s3)
      | None \<Rightarrow> Normal s)"

text \<open>The callback \<^verbatim>\<open>tracker.onUpdate\<close> of the tracker registered under \<open>j\<close>: the data
  point is appended to the history when the update has devices, and sent to the clients.\<close>

definition onUpdate :: "env \<Rightarrow> jid \<Rightarrow> 'd UpdateData \<Rightarrow> 'd server \<Rightarrow> 'd server completion" where
  "onUpdate e j updateData s =
     (let dataPoint = \<lparr>dp_jid = j, dp_platform = WhatsApp, dp_update = updateData,
                       dp_timestamp = now e\<rparr>;
          saved = (case devices updateData of
                     Some (d # ds) \<Rightarrow> appendHistory e j dataPoint s
                   | _ \<Rightarrow> Normal s)
      in case saved of
           Normal s' \<Rightarrow> Normal (io_emit (EvTrackerUpdate dataPoint False) s')
         | Throw err s' \<Rightarrow> Throw err s')"

text \<open>
  Modelled from the spec: when the tracker object \<open>r\<close> completes a probe cycle it calls
  its callback, unless it has been stopped (tracker.ts is not among the sources; the
  spec: after \<^verbatim>\<open>stop()\<close> the session emits no further samples, and an ack that arrives
  afterwards is discarded).
\<close>

definition tracker_cycle :: "env \<Rightarrow> nat \<Rightarrow> 'd UpdateData \<Rightarrow> 'd server \<Rightarrow> 'd server completion" where
  "tracker_cycle e r updateData s =
     (case obj_at (objects s) r of
        None \<Rightarrow> Normal s
      | Some t \<Rightarrow> if t_isTracking t then onUpdate e (t_jid t) updateData s else Normal s)"

text \<open>The handler of \<^verbatim>\<open>connection.update\<close>. A QR code is kept and sent. On
  \<^verbatim>\<open>close\<close> the flag is cleared and, unless the status code of the last disconnect
  is \<^verbatim>\<open>loggedOut\<close>, \<^verbatim>\<open>connectToWhatsApp\<close> is called again. On \<^verbatim>\<open>open\<close> the flag is
  set and each initial contact without a tracker is tracked, \<^verbatim>\<open>emitError\<close> false, by the
  part of its identity before the \<^verbatim>\<open>@\<close>.\<close>

datatype connection_state = Close | Open | Connecting

record connection_update_arg =
  connection :: "connection_state option"
  lastDisconnect_statusCode :: "nat option"
  qr :: "string option"

definition before_at :: "string \<Rightarrow> string" where
  "before_at j = (case split CHR ''@'' j of w # _ \<Rightarrow> w | [] \<Rightarrow> [])"

text \<open>\<^verbatim>\<open>initialContacts.forEach\<close> starts a call for every contact without a tracker and
  awaits none of them: the first stretches of all the calls run first, each against the
  registry as it is then, and the calls go on afterwards. In the model they go on one
  after the other, in the order in which they began.\<close>

fun restore_begin :: "jid list \<Rightarrow> 'd server \<Rightarrow> 'd server \<times> tracking_call list" where
  "restore_begin [] s = (s, [])"
| "restore_begin (j # js) s =
     (if \<not> Map_has (trackers s) j
      then (case tracking_begin (before_at j) False s of
              (s', None) \<Rightarrow> restore_begin js s'
            | (s', Some c) \<Rightarrow> (case restore_begin js s' of (s'', cs) \<Rightarrow> (s'', c # cs)))
      else restore_begin js s)"

definition restore_trackers :: "env \<Rightarrow> jid list \<Rightarrow> 'd server \<Rightarrow> 'd server" where
  "restore_trackers e js s =
     (case restore_begin js s of (s', cs) \<Rightarrow> fold (tracking_continue e) cs s')"

definition connection_update :: "env \<Rightarrow> connection_update_arg \<Rightarrow> 'd server \<Rightarrow> 'd server" where
  "connection_update e update s =
     (let s1 = (case qr update of
                  None \<Rightarrow> s
                | Some q \<Rightarrow> if q = [] then s
                            else io_emit (EvQr q) (s\<lparr>currentWhatsAppQr := Some q\<rparr>))
      in if connection update = Some Close then
           (let s2 = s1\<lparr>isWhatsAppConnected := False, currentWhatsAppQr := None\<rparr>;
                shouldReconnect = (lastDisconnect_statusCode update \<noteq> Some (loggedOut e))
            in if shouldReconnect then connectToWhatsApp s2 else s2)
         else if connection update = Some Open then
           (let s2 = s1\<lparr>isWhatsAppConnected := True, currentWhatsAppQr := None\<rparr>;
                s3 = io_emit EvConnectionOpen s2
            in restore_trackers e (initialContacts s3) s3)
         else s1)"


section \<open>Inputs that differ only in characters other than digits\<close>

text \<open>Two inputs differ only in non-digit characters when, read from the left with the
  non-digits passed over, they show the same digits in the same order.\<close>

fun differ_only_in_nondigits :: "string \<Rightarrow> string \<Rightarrow> bool" where
  "differ_only_in_nondigits [] [] = True"
| "differ_only_in_nondigits (c # a) [] = (\<not> isDigit c \<and> differ_only_in_nondigits a [])"
| "differ_only_in_nondigits [] (d # b) = (\<not> isDigit d \<and> differ_only_in_nondigits [] b)"
| "differ_only_in_nondigits (c # a) (d # b) =
     (if \<not> isDigit c then differ_only_in_nondigits a (d # b)
      else if \<not> isDigit d then differ_only_in_nondigits (c # a) b
      else c = d \<and> differ_only_in_nondigits a b)"


section \<open>A run of the server\<close>

text \<open>A world in which every number is on WhatsApp under the identity asked for, no
  picture and no name are known, and the file system works.\<close>

definition example_env :: env where
  "example_env =
     \<lparr>onWhatsApp = (\<lambda>j. Inr (Some [\<lparr>exists = True, wa_jid = j, notify = None\<rparr>])),
      getProfilePicture = (\<lambda>j. Inr None),
      writeFileSync_throws = None, now = 0, loggedOut = 401\<rparr>"

definition open_update :: connection_update_arg where
  "open_update = \<lparr>connection = Some Open, lastDisconnect_statusCode = None, qr = None\<rparr>"

text \<open>The connection is lost with a status code other than \<^verbatim>\<open>loggedOut\<close>.\<close>

definition close_update :: connection_update_arg where
  "close_update = \<lparr>connection = Some Close, lastDisconnect_statusCode = Some 428, qr = None\<rparr>"

text \<open>The server starts with no saved files, connects, the connection opens, and a
  client adds the contact \<^verbatim>\<open>+1 (234) 567-8900\<close>.\<close>

definition example_server :: "nat server" where
  "example_server =
     (case add_contact example_env ''+1 (234) 567-8900''
             (connection_update example_env open_update
                (connectToWhatsApp (initial_server None None))) of
        Normal s \<Rightarrow> s
      | Throw err s \<Rightarrow> s)"


text \<open>The server connected, before any contact is added.\<close>

definition example_connected :: "nat server" where
  "example_connected =
     connection_update example_env open_update (connectToWhatsApp (initial_server None None))"

text \<open>A world in which the network knows the number asked for under another identity
  than the one derived from it: \<^verbatim>\<open>onWhatsApp\<close> answers with the identity
  \<^verbatim>\<open>551187654321@s.whatsapp.net\<close>.\<close>

definition renaming_env :: env where
  "renaming_env =
     example_env\<lparr>onWhatsApp :=
       (\<lambda>j. Inr (Some [\<lparr>exists = True, wa_jid = ''551187654321@s.whatsapp.net'',
                          notify = None\<rparr>]))\<rparr>"

text \<open>In that world a client adds the number \<^verbatim>\<open>5511987654321\<close>, then adds it again,
  then removes the contact.\<close>

definition example_once :: "nat server" where
  "example_once =
     (case add_contact renaming_env ''5511987654321'' example_connected of
        Normal s \<Rightarrow> s
      | Throw err s \<Rightarrow> s)"

definition example_twice :: "nat server" where
  "example_twice =
     (case add_contact renaming_env ''5511987654321'' example_once of
        Normal s \<Rightarrow> s
      | Throw err s \<Rightarrow> s)"

definition example_removed :: "nat server" where
  "example_removed =
     (case remove_contact example_env 7 ''551187654321@s.whatsapp.net'' example_twice of
        Normal s \<Rightarrow> s
      | Throw err s \<Rightarrow> s)"

text \<open>A data point, and a server whose cache holds 1001 points for one contact.\<close>

definition example_point :: "nat DataPoint" where
  "example_point = \<lparr>dp_jid = ''12345678900@s.whatsapp.net'', dp_platform = WhatsApp,
                    dp_update = \<lparr>devices = Some [150]\<rparr>, dp_timestamp = 0\<rparr>"

definition example_full :: "nat server" where
  "example_full =
     initial_server
       (Some [''12345678900@s.whatsapp.net'' \<mapsto> replicate 1001 example_point]) None"


section \<open>The presence classifier\<close>

text \<open>
  Modelled from the spec: the Presence Classifier (tracker.ts is not among the sources).
  Its state is a smoothed RTT, the current state and the time of the last transition. On
  a Timeout the state becomes Offline; on an RTT sample the smoothed RTT is updated, then
  the smoothed value is compared with the two thresholds. The spec leaves the moving
  average open (exponential or windowed), so it is a parameter of the configuration.
\<close>

datatype PresenceState = Online | Standby | Offline

datatype cycle_outcome = Timeout | RttSample nat

record 'a classifier_config =
  onlineThreshold :: 'a
  standbyThreshold :: 'a
  smooth :: "'a \<Rightarrow> nat \<Rightarrow> 'a"

record 'a classifier =
  smoothedRtt :: 'a
  presence :: PresenceState
  lastTransition :: nat

definition classify :: "('a::linorder) classifier_config \<Rightarrow> 'a \<Rightarrow> PresenceState" where
  "classify cfg x =
     (if x \<le> onlineThreshold cfg then Online
      else if x \<le> standbyThreshold cfg then Standby
      else Offline)"

definition transition :: "nat \<Rightarrow> PresenceState \<Rightarrow> 'a classifier \<Rightarrow> 'a classifier" where
  "transition t st c =
     (if presence c = st then c else c\<lparr>presence := st, lastTransition := t\<rparr>)"

fun classifier_step :: "('a::linorder) classifier_config \<Rightarrow> nat \<Rightarrow> 'a classifier \<Rightarrow> cycle_outcome \<Rightarrow> 'a classifier" where
  "classifier_step cfg t c Timeout = transition t Offline c"
| "classifier_step cfg t c (RttSample r) =
     (let x = smooth cfg (smoothedRtt c) r
      in transition t (classify cfg x) (c\<lparr>smoothedRtt := x\<rparr>))"


section \<open>The RTT correlator of one target session\<close>

text \<open>
  Modelled from the spec: the serialized adapter and the RTT Correlator (tracker.ts and
  signal-tracker.ts are not among the sources). A session has one slot for its outstanding
  probe request. \<^verbatim>\<open>sendProbe\<close> refuses with AdapterBusy while the slot is occupied and
  with TransportUnavailable while the connection is down; otherwise it occupies the slot. A
  matching ack computes the sample \<^verbatim>\<open>observedAt - sentAt\<close> (the clock is monotonic) and
  clears the slot; the expiry of the deadline with the slot still occupied clears it with a
  Timeout outcome; an event that matches no occupied slot is dropped. An ack without
  probe id is correlated by recency, with whatever is in the slot. For the statement of
  the invariant the session also logs every request it handed to the transport and the
  outcome of every cycle.
\<close>

record ProbeRequest =
  probe_id :: nat
  targetIdentity :: jid
  sentAt :: nat

datatype send_error = AdapterBusy | TransportUnavailable

record session =
  target :: jid
  connected :: bool
  outstanding :: "ProbeRequest option"
  nextProbeId :: nat
  sent :: "ProbeRequest list"
  outcomes :: "(nat \<times> cycle_outcome) list"

definition new_session :: "jid \<Rightarrow> session" where
  "new_session j =
     \<lparr>target = j, connected = True, outstanding = None, nextProbeId = 0, sent = [],
      outcomes = []\<rparr>"

definition sendProbe :: "nat \<Rightarrow> session \<Rightarrow> send_error + session" where
  "sendProbe t s =
     (if outstanding s \<noteq> None then Inl AdapterBusy
      else if \<not> connected s then Inl TransportUnavailable
      else (let p = \<lparr>probe_id = nextProbeId s, targetIdentity = target s, sentAt = t\<rparr>
            in Inr (s\<lparr>outstanding := Some p, nextProbeId := Suc (nextProbeId s),
                      sent := sent s @ [p]\<rparr>)))"

definition matches :: "nat option \<Rightarrow> ProbeRequest \<Rightarrow> bool" where
  "matches pid p = (case pid of None \<Rightarrow> True | Some i \<Rightarrow> i = probe_id p)"

definition onAck :: "nat option \<Rightarrow> nat \<Rightarrow> session \<Rightarrow> session" where
  "onAck pid observedAt s =
     (case outstanding s of
        None \<Rightarrow> s
      | Some p \<Rightarrow>
          if matches pid p
          then s\<lparr>outstanding := None,
                 outcomes := outcomes s @ [(probe_id p, RttSample (observedAt - sentAt p))]\<rparr>
          else s)"

definition onDeadline :: "nat \<Rightarrow> session \<Rightarrow> session" where
  "onDeadline i s =
     (case outstanding s of
        None \<Rightarrow> s
      | Some p \<Rightarrow>
          if i = probe_id p
          then s\<lparr>outstanding := None, outcomes := outcomes s @ [(probe_id p, Timeout)]\<rparr>
          else s)"

text \<open>What can happen to a session: the probe clock fires at a time (a refused send is a
  skipped cycle), the transport delivers an ack, the deadline of a probe expires, the
  transport goes down or comes back.\<close>

datatype session_event =
    Tick nat
  | Ack "nat option" nat
  | Deadline nat
  | Disconnected
  | Connected

fun session_step :: "session \<Rightarrow> session_event \<Rightarrow> session" where
  "session_step s (Tick t) = (case sendProbe t s of Inl err \<Rightarrow> s | Inr s' \<Rightarrow> s')"
| "session_step s (Ack pid observedAt) = onAck pid observedAt s"
| "session_step s (Deadline i) = onDeadline i s"
| "session_step s Disconnected = s\<lparr>connected := False\<rparr>"
| "session_step s Connected = s\<lparr>connected := True\<rparr>"

definition session_run :: "session_event list \<Rightarrow> session \<Rightarrow> session" where
  "session_run evs s = foldl session_step s evs"

text \<open>The requests in flight: handed to the transport and not yet resolved.\<close>

definition in_flight :: "session \<Rightarrow> ProbeRequest list" where
  "in_flight s = filter (\<lambda>p. probe_id p \<notin> fst ` set (outcomes s)) (sent s)"

text \<open>The RTT samples produced so far, with the probe each belongs to.\<close>

definition rtt_samples :: "session \<Rightarrow> (nat \<times> nat) list" where
  "rtt_samples s =
     concat (map (\<lambda>(i, out). case out of RttSample r \<Rightarrow> [(i, r)] | Timeout \<Rightarrow> []) (outcomes s))"


text \<open>The thresholds of the spec's example, with the mean of the previous value and the
  sample as moving average.\<close>

definition example_config :: "nat classifier_config" where
  "example_config = \<lparr>onlineThreshold = 300, standbyThreshold = 800,
                     smooth = (\<lambda>prev r. (prev + r) div 2)\<rparr>"

text \<open>HelpPage.tsx, lines 29-39: the example chart's RTT values with the state shown for
  each, drawn against reference lines at 300 (\<^verbatim>\<open>Online Threshold\<close>) and 800
  (\<^verbatim>\<open>Standby Threshold\<close>).\<close>

definition exampleData :: "(nat \<times> PresenceState) list" where
  "exampleData =
     [(180, Online), (210, Online), (195, Online), (520, Standby), (480, Standby),
      (1200, Offline), (1500, Offline), (190, Online), (175, Online)]"

text \<open>What the logs of a session satisfy at every moment: the ids handed out are below
  the next id, every outcome belongs to a request that was sent, no request has two
  outcomes, and the requests in flight are exactly the content of the slot.\<close>

definition session_inv :: "session \<Rightarrow> bool" where
  "session_inv s \<longleftrightarrow>
     (\<forall>p \<in> set (sent s). probe_id p < nextProbeId s)
     \<and> fst ` set (outcomes s) \<subseteq> probe_id ` set (sent s)
     \<and> distinct (map fst (outcomes s))
     \<and> in_flight s = (case outstanding s of None \<Rightarrow> [] | Some p \<Rightarrow> [p])"


text \<open>A run of events: a tick while a probe is outstanding, a repeated ack, a deadline
  that expires, an ack that comes after it.\<close>

definition example_events :: "session_event list" where
  "example_events = [Tick 0, Tick 5, Ack (Some 0) 180, Ack (Some 0) 190, Tick 2000,
                     Deadline 1, Ack (Some 1) 13000, Tick 14000]"


section \<open>Properties of the allow-list\<close>

lemma split_nonempty: "split sep s \<noteq> []"
  by (induction s) (auto split: list.splits)

lemma ALLOWED_EMAILS_part_001_filter:
  "ALLOWED_EMAILS_part_001 v = filter (\<lambda>e. e \<noteq> []) (ALLOWED_EMAILS v)"
  by (simp add: ALLOWED_EMAILS_part_001_def ALLOWED_EMAILS_def)

text \<open>Where the variable names at least one address, the two copies decide every login
  alike: the empty pieces the first copy keeps match no e-mail that reaches the test.\<close>

lemma verify_copies_agree:
  assumes "\<exists>e \<in> set (ALLOWED_EMAILS v). e \<noteq> []"
  shows "verify (ALLOWED_EMAILS v) p = verify (ALLOWED_EMAILS_part_001 v) p"
proof -
  have ne: "ALLOWED_EMAILS_part_001 v \<noteq> []"
    using assms by (auto simp: ALLOWED_EMAILS_part_001_filter filter_empty_conv)
  have ne': "ALLOWED_EMAILS v \<noteq> []"
    using assms by auto
  have mem: "e \<noteq> [] \<Longrightarrow> List.member (ALLOWED_EMAILS v) e = List.member (ALLOWED_EMAILS_part_001 v) e" for e
    by (auto simp: ALLOWED_EMAILS_part_001_filter)
  show ?thesis
    using ne ne' mem
    by (auto simp: verify_def Let_def split: option.splits list.splits)
qed

text \<open>
  C10. The claim: for every value of the variable the two copies admit the same e-mails,
  and with the variable unset or empty both have an empty allow-list and permit every
  e-mail. With the variable unset, the list of src/src/auth.ts is the one-element list
  holding the empty string: its length is 1, no e-mail is a member, and the login of
  \<^verbatim>\<open>a@b.c\<close> is blocked, while the copy in src/unnamed/part_001 has the empty
  list and approves it.
\<close>

theorem C10_unset_allow_list_diverges:
  "ALLOWED_EMAILS None = [[]]
   \<and> ALLOWED_EMAILS_part_001 None = []
   \<and> verify (ALLOWED_EMAILS None) (Some [''a@b.c'']) = UnauthorizedEmail
   \<and> verify (ALLOWED_EMAILS_part_001 None) (Some [''a@b.c'']) = LoginApproved"
  by (simp add: ALLOWED_EMAILS_def ALLOWED_EMAILS_part_001_def env_or_empty_def trim_def
      verify_def)


section \<open>Properties of the history cache\<close>

lemma saveHistory_returns:
  "saveHistory e s =
     Normal (case writeFileSync_throws e of
               None \<Rightarrow> s\<lparr>historyFile := Some (historyCache s)\<rparr>
             | Some err \<Rightarrow> console_error ''Failed to save history:'' s)"
  by (simp add: saveHistory_def writeHistoryFile_def split: option.splits)

lemma saveHistory_cache:
  "saveHistory e s = Normal s' \<Longrightarrow> historyCache s' = historyCache s"
  by (auto simp: saveHistory_returns console_error_def split: option.splits)

lemma appendHistory_returns:
  "\<exists>s'. appendHistory e j d s = Normal s'"
  by (simp add: appendHistory_def Let_def saveHistory_returns)

lemma appendHistory_cache:
  assumes "appendHistory e j d s = Normal s'"
  shows "historyCache s' =
           (historyCache s)(j \<mapsto> (if length (history_of s j) > 1000 then tl (history_of s j)
                                    else history_of s j) @ [d])"
  using assms
  by (auto simp: appendHistory_def Let_def history_of_def dest!: saveHistory_cache
      split: option.splits)

lemma appendHistory_history_same:
  assumes "appendHistory e j d s = Normal s'"
  shows "history_of s' j =
           (if length (history_of s j) > 1000 then tl (history_of s j) else history_of s j) @ [d]"
  using appendHistory_cache [OF assms] by (simp add: history_of_def)

lemma appendHistory_history_other:
  assumes "appendHistory e j d s = Normal s'" and "j' \<noteq> j"
  shows "history_of s' j' = history_of s j'"
  using appendHistory_cache [OF assms(1)] assms(2) by (simp add: history_of_def)

lemma appendHistory_bounded:
  assumes "appendHistory e j d s = Normal s'"
    and "\<forall>j'. length (history_of s j') \<le> 1001"
  shows "\<forall>j'. length (history_of s' j') \<le> 1001"
proof
  fix j'
  show "length (history_of s' j') \<le> 1001"
  proof (cases "j' = j")
    case True
    have "length (history_of s j) \<le> 1001" using assms(2) by blast
    then show ?thesis
      unfolding True appendHistory_history_same [OF assms(1)] by auto
  next
    case False
    then show ?thesis
      using appendHistory_history_other [OF assms(1)] assms(2) by simp
  qed
qed

lemma appendHistory_all_bounded:
  assumes "\<forall>j'. length (history_of s j') \<le> 1001"
  shows "\<exists>s'. appendHistory_all xs s = Normal s' \<and> (\<forall>j'. length (history_of s' j') \<le> 1001)"
  using assms
proof (induction xs arbitrary: s)
  case Nil
  then show ?case by simp
next
  case (Cons x xs)
  obtain e j d where x: "x = (e, j, d)" by (cases x)
  obtain s1 where s1: "appendHistory e j d s = Normal s1"
    using appendHistory_returns by blast
  have "\<forall>j'. length (history_of s1 j') \<le> 1001"
    using appendHistory_bounded [OF s1 Cons.prems] .
  from Cons.IH [OF this] show ?case
    by (simp add: x s1)
qed

text \<open>
  C7. The history kept in memory for a contact is bounded by a fixed cap. The test of
  \<^verbatim>\<open>appendHistory\<close> is \<^verbatim>\<open>length > 1000\<close>, so the cap is 1001 entries: from a
  cache whose histories are within the cap (the empty cache at first), every run of
  appends returns and leaves every contact's history within the cap; and an append to a
  history that has reached the cap drops its oldest entry first.
\<close>

theorem C7_history_bounded:
  assumes "\<forall>j'. length (history_of s j') \<le> 1001"
  shows "(\<exists>s'. appendHistory_all xs s = Normal s' \<and> (\<forall>j'. length (history_of s' j') \<le> 1001))
         \<and> (\<exists>s'. appendHistory e j d s = Normal s'
                \<and> history_of s' j =
                    (if length (history_of s j) = 1001 then tl (history_of s j)
                     else history_of s j) @ [d])"
proof
  show "\<exists>s'. appendHistory_all xs s = Normal s' \<and> (\<forall>j'. length (history_of s' j') \<le> 1001)"
    using appendHistory_all_bounded [OF assms] .
next
  obtain s' where s': "appendHistory e j d s = Normal s'"
    using appendHistory_returns by blast
  have "length (history_of s j) \<le> 1001" using assms by blast
  then have "(length (history_of s j) > 1000) = (length (history_of s j) = 1001)"
    by auto
  then show "\<exists>s'. appendHistory e j d s = Normal s'
                \<and> history_of s' j =
                    (if length (history_of s j) = 1001 then tl (history_of s j)
                     else history_of s j) @ [d]"
    using s' appendHistory_history_same [OF s'] by simp
qed

theorem C7_history_bounded_witness:
  "(\<forall>j'. length (history_of example_full j') \<le> 1001)
   \<and> length (history_of example_full ''12345678900@s.whatsapp.net'') = 1001
   \<and> (\<exists>s'. appendHistory_all
               [(example_env, ''12345678900@s.whatsapp.net'', example_point),
                (example_env, ''442079460958@s.whatsapp.net'', example_point)] example_full
             = Normal s'
          \<and> (\<forall>j'. length (history_of s' j') \<le> 1001))
   \<and> (\<exists>s'. appendHistory example_env ''12345678900@s.whatsapp.net'' example_point example_full
             = Normal s'
          \<and> history_of s' ''12345678900@s.whatsapp.net''
              = tl (replicate 1001 example_point) @ [example_point])"
proof -
  have h: "\<forall>j'. length (history_of example_full j') \<le> 1001"
    by (simp add: example_full_def initial_server_def history_of_def)
  have l: "history_of example_full ''12345678900@s.whatsapp.net'' = replicate 1001 example_point"
    by (simp add: example_full_def initial_server_def history_of_def)
  show ?thesis
    using h l
      C7_history_bounded [OF h, of
        "[(example_env, ''12345678900@s.whatsapp.net'', example_point),
          (example_env, ''442079460958@s.whatsapp.net'', example_point)]"
        example_env "''12345678900@s.whatsapp.net''" example_point]
    by simp
qed

text \<open>
  C8. An append never throws, whatever the file system does: when the save fails the
  error is logged, the file is left as it was, and the cache in memory is the one a
  successful save leaves, with the new data point in it.
\<close>

theorem C8_failed_save_tolerated:
  "\<exists>s1 s2. appendHistory (e\<lparr>writeFileSync_throws := Some err\<rparr>) j d s = Normal s1
      \<and> appendHistory (e\<lparr>writeFileSync_throws := None\<rparr>) j d s = Normal s2
      \<and> historyCache s1 = historyCache s2
      \<and> history_of s1 j =
          (if length (history_of s j) > 1000 then tl (history_of s j) else history_of s j) @ [d]
      \<and> console_errors s1 = console_errors s @ [''Failed to save history:'']
      \<and> historyFile s1 = historyFile s
      \<and> emitted s1 = emitted s"
proof -
  obtain s1 where s1: "appendHistory (e\<lparr>writeFileSync_throws := Some err\<rparr>) j d s = Normal s1"
    using appendHistory_returns by blast
  obtain s2 where s2: "appendHistory (e\<lparr>writeFileSync_throws := None\<rparr>) j d s = Normal s2"
    using appendHistory_returns by blast
  have "historyCache s1 = historyCache s2"
    by (simp add: appendHistory_cache [OF s1] appendHistory_cache [OF s2])
  moreover have "console_errors s1 = console_errors s @ [''Failed to save history:'']"
    and "historyFile s1 = historyFile s" and "emitted s1 = emitted s"
    using s1 by (auto simp: appendHistory_def Let_def saveHistory_returns console_error_def)
  ultimately show ?thesis
    using s1 s2 appendHistory_history_same [OF s1] by simp
qed


section \<open>Properties of the registry of trackers\<close>


text \<open>The definitions a run of \<^verbatim>\<open>startTrackingWhatsApp\<close> unfolds.\<close>

lemmas tracking_defs =
  add_contact_def startTrackingWhatsApp_def tracking_begin_def tracking_continue_def
  tracking_exists_def tracking_picture_def tracking_name_def catch_error_def
  not_on_WhatsApp_def targetJid_def isDigit_def Map_has_def first_result_def io_emit_def
  setProbeMethod_def new_WhatsAppTracker_def startTracking_def saveContacts_def
  writeContactsFile_def console_error_def Let_def

text \<open>The runs of the example servers, computed. On the first the contact is registered
  under the derived identity and its tracker holds the socket that was current, socket
  0; on the others the network returned another identity than the derived one.\<close>

lemma example_connected_eq:
  "example_connected =
     \<lparr>sock = Some 0, socketsMade = 1, isWhatsAppConnected = True, globalProbeMethod = Delete,
      currentWhatsAppQr = None, trackers = [], objects = [],
      historyCache = Map.empty, initialContacts = [],
      contactsFile = None, historyFile = None,
      emitted = [(ToAll, EvConnectionOpen)], console_errors = []\<rparr>"
  by (simp add: example_connected_def connection_update_def open_update_def
      connectToWhatsApp_def initial_server_def io_emit_def restore_trackers_def Let_def)

lemma example_server_eq:
  "example_server =
     \<lparr>sock = Some 0, socketsMade = 1, isWhatsAppConnected = True, globalProbeMethod = Delete,
      currentWhatsAppQr = None,
      trackers = [(''12345678900@s.whatsapp.net'', \<lparr>tracker = 0, platform = WhatsApp\<rparr>)],
      objects = [\<lparr>t_sock = 0, t_jid = ''12345678900@s.whatsapp.net'', t_probeMethod = Delete,
                  t_isTracking = True\<rparr>],
      historyCache = Map.empty, initialContacts = [],
      contactsFile = Some [(''12345678900@s.whatsapp.net'', WhatsApp)], historyFile = None,
      emitted = [(ToAll, EvConnectionOpen),
                 (ToAll, EvContactAdded ''12345678900@s.whatsapp.net'' ''12345678900'' WhatsApp),
                 (ToAll, EvProfilePic ''12345678900@s.whatsapp.net'' None),
                 (ToAll, EvContactName ''12345678900@s.whatsapp.net'' ''12345678900'')],
      console_errors = []\<rparr>"
  unfolding example_server_def example_connected_def [symmetric] example_connected_eq
  by (simp add: tracking_defs example_env_def)

lemma example_once_eq:
  "example_once =
     \<lparr>sock = Some 0, socketsMade = 1, isWhatsAppConnected = True, globalProbeMethod = Delete,
      currentWhatsAppQr = None,
      trackers = [(''551187654321@s.whatsapp.net'', \<lparr>tracker = 0, platform = WhatsApp\<rparr>)],
      objects = [\<lparr>t_sock = 0, t_jid = ''551187654321@s.whatsapp.net'', t_probeMethod = Delete,
                  t_isTracking = True\<rparr>],
      historyCache = Map.empty, initialContacts = [],
      contactsFile = Some [(''551187654321@s.whatsapp.net'', WhatsApp)], historyFile = None,
      emitted = [(ToAll, EvConnectionOpen),
                 (ToAll, EvContactAdded ''551187654321@s.whatsapp.net'' ''5511987654321'' WhatsApp),
                 (ToAll, EvProfilePic ''551187654321@s.whatsapp.net'' None),
                 (ToAll, EvContactName ''551187654321@s.whatsapp.net'' ''5511987654321'')],
      console_errors = []\<rparr>"
  unfolding example_once_def example_connected_eq
  by (simp add: tracking_defs example_env_def renaming_env_def)

lemma example_twice_eq:
  "example_twice =
     \<lparr>sock = Some 0, socketsMade = 1, isWhatsAppConnected = True, globalProbeMethod = Delete,
      currentWhatsAppQr = None,
      trackers = [(''551187654321@s.whatsapp.net'', \<lparr>tracker = 1, platform = WhatsApp\<rparr>)],
      objects = [\<lparr>t_sock = 0, t_jid = ''551187654321@s.whatsapp.net'', t_probeMethod = Delete,
                  t_isTracking = True\<rparr>,
                 \<lparr>t_sock = 0, t_jid = ''551187654321@s.whatsapp.net'', t_probeMethod = Delete,
                  t_isTracking = True\<rparr>],
      historyCache = Map.empty, initialContacts = [],
      contactsFile = Some [(''551187654321@s.whatsapp.net'', WhatsApp)], historyFile = None,
      emitted = [(ToAll, EvConnectionOpen),
                 (ToAll, EvContactAdded ''551187654321@s.whatsapp.net'' ''5511987654321'' WhatsApp),
                 (ToAll, EvProfilePic ''551187654321@s.whatsapp.net'' None),
                 (ToAll, EvContactName ''551187654321@s.whatsapp.net'' ''5511987654321''),
                 (ToAll, EvContactAdded ''551187654321@s.whatsapp.net'' ''5511987654321'' WhatsApp),
                 (ToAll, EvProfilePic ''551187654321@s.whatsapp.net'' None),
                 (ToAll, EvContactName ''551187654321@s.whatsapp.net'' ''5511987654321'')],
      console_errors = []\<rparr>"
  unfolding example_twice_def example_once_eq
  by (simp add: tracking_defs example_env_def renaming_env_def)

lemma example_removed_eq:
  "example_removed =
     \<lparr>sock = Some 0, socketsMade = 1, isWhatsAppConnected = True, globalProbeMethod = Delete,
      currentWhatsAppQr = None,
      trackers = [],
      objects = [\<lparr>t_sock = 0, t_jid = ''551187654321@s.whatsapp.net'', t_probeMethod = Delete,
                  t_isTracking = True\<rparr>,
                 \<lparr>t_sock = 0, t_jid = ''551187654321@s.whatsapp.net'', t_probeMethod = Delete,
                  t_isTracking = False\<rparr>],
      historyCache = Map.empty, initialContacts = [],
      contactsFile = Some [], historyFile = None,
      emitted = [(ToAll, EvConnectionOpen),
                 (ToAll, EvContactAdded ''551187654321@s.whatsapp.net'' ''5511987654321'' WhatsApp),
                 (ToAll, EvProfilePic ''551187654321@s.whatsapp.net'' None),
                 (ToAll, EvContactName ''551187654321@s.whatsapp.net'' ''5511987654321''),
                 (ToAll, EvContactAdded ''551187654321@s.whatsapp.net'' ''5511987654321'' WhatsApp),
                 (ToAll, EvProfilePic ''551187654321@s.whatsapp.net'' None),
                 (ToAll, EvContactName ''551187654321@s.whatsapp.net'' ''5511987654321''),
                 (ToSocket 7, EvContactRemoved ''551187654321@s.whatsapp.net'')],
      console_errors = []\<rparr>"
  unfolding example_removed_def example_twice_eq
  by (simp add: remove_contact_def socket_emit_def stopTracking_def saveContacts_def
      writeContactsFile_def example_env_def Let_def)


lemma saveContacts_returns:
  "saveContacts e s =
     Normal (case writeFileSync_throws e of
               None \<Rightarrow> s\<lparr>contactsFile := Some (map (\<lambda>(id, entry). (id, platform entry)) (trackers s))\<rparr>
             | Some err \<Rightarrow> console_error ''Failed to save contacts:'' s)"
  by (simp add: saveContacts_def writeContactsFile_def split: option.splits)

lemma replace_nondigits_filter: "replace_nondigits s = filter isDigit s"
  by (induction s) auto

lemma differ_only_in_nondigits_iff:
  "differ_only_in_nondigits a b \<longleftrightarrow> filter isDigit a = filter isDigit b"
  by (induction a b rule: differ_only_in_nondigits.induct) auto

text \<open>The identity derived from an input is its digits followed by the suffix, and inputs
  that differ only in other characters have the same derived identity.\<close>

lemma targetJid_digits: "targetJid a = filter isDigit a @ ''@s.whatsapp.net''"
  by (simp add: targetJid_def replace_nondigits_filter)

lemma targetJid_same:
  "differ_only_in_nondigits a b \<Longrightarrow> targetJid b = targetJid a"
  by (simp add: targetJid_digits differ_only_in_nondigits_iff)

text \<open>A request whose derived identity is a key of the registry is refused in its first
  stretch, before anything is awaited: the error is sent and nothing else changes.\<close>

lemma duplicate_rejected:
  assumes "Map_has (trackers s) (targetJid number)"
  shows "add_contact e number s =
           Normal (io_emit (EvError (targetJid number) ''Already tracking this contact'') s)"
  using assms
  by (simp add: add_contact_def startTrackingWhatsApp_def tracking_begin_def Let_def)

text \<open>
  C4. The claim: an add-contact request for an identity that is already in the registry
  is rejected with a duplicate error and creates no second tracker. The guard of
  \<^verbatim>\<open>startTrackingWhatsApp\<close> tests the identity derived from the number, while the
  registry is keyed by the identity the network returned. Where the two differ, as for
  the number \<^verbatim>\<open>5511987654321\<close> registered under
  \<^verbatim>\<open>551187654321@s.whatsapp.net\<close>, the same request made again passes the
  guard: no error is sent, a second tracker is constructed and started for the identity,
  and the entry of the registry is overwritten with it, the first tracker still running.
\<close>

theorem C4_registered_identity_accepted_again:
  "trackers example_once
     = [(''551187654321@s.whatsapp.net'', \<lparr>tracker = 0, platform = WhatsApp\<rparr>)]
   \<and> map (\<lambda>t. (t_jid t, t_isTracking t)) (objects example_once)
     = [(''551187654321@s.whatsapp.net'', True)]
   \<and> add_contact renaming_env ''5511987654321'' example_once = Normal example_twice
   \<and> emitted example_twice
     = emitted example_once
       @ [(ToAll, EvContactAdded ''551187654321@s.whatsapp.net'' ''5511987654321'' WhatsApp),
          (ToAll, EvProfilePic ''551187654321@s.whatsapp.net'' None),
          (ToAll, EvContactName ''551187654321@s.whatsapp.net'' ''5511987654321'')]
   \<and> trackers example_twice
     = [(''551187654321@s.whatsapp.net'', \<lparr>tracker = 1, platform = WhatsApp\<rparr>)]
   \<and> map (\<lambda>t. (t_jid t, t_isTracking t)) (objects example_twice)
     = [(''551187654321@s.whatsapp.net'', True), (''551187654321@s.whatsapp.net'', True)]"
proof -
  have "add_contact renaming_env ''5511987654321'' example_once = Normal example_twice"
    by (simp add: example_twice_def add_contact_def startTrackingWhatsApp_def)
  then show ?thesis
    by (simp add: example_once_eq example_twice_eq)
qed

text \<open>
  C5, as amended. A remove-contact request that names an identity with no entry in the
  registry is ignored: the handler returns, and the state, with the events sent so far,
  is unchanged. The code has no TargetNotFound rejection.
\<close>

theorem C5_unknown_target_ignored:
  assumes "map_of (trackers s) j = None"
  shows "remove_contact e sid j s = Normal s"
  using assms by (simp add: remove_contact_def)

theorem C5_unknown_target_ignored_witness:
  "map_of (trackers example_server) ''19998887777@s.whatsapp.net'' = None
   \<and> remove_contact example_env 0 ''19998887777@s.whatsapp.net'' example_server
       = Normal example_server"
proof -
  have h: "map_of (trackers example_server) ''19998887777@s.whatsapp.net'' = None"
    by (simp add: example_server_eq)
  show ?thesis using h C5_unknown_target_ignored [OF h] by simp
qed

text \<open>
  C5, as stated, fails: on the example server the removal of an identity that is not
  tracked returns the server as it was, so nothing, and no rejection, is sent to any
  client.
\<close>

theorem C5_no_rejection_counterexample:
  "\<not> Map_has (trackers example_server) ''19998887777@s.whatsapp.net''
   \<and> remove_contact example_env 0 ''19998887777@s.whatsapp.net'' example_server
       = Normal example_server
   \<and> emitted example_server =
       [(ToAll, EvConnectionOpen),
        (ToAll, EvContactAdded ''12345678900@s.whatsapp.net'' ''12345678900'' WhatsApp),
        (ToAll, EvProfilePic ''12345678900@s.whatsapp.net'' None),
        (ToAll, EvContactName ''12345678900@s.whatsapp.net'' ''12345678900'')]"
  by (simp add: remove_contact_def Map_has_def example_server_eq)


lemma remove_contact_returns: "\<exists>s1. remove_contact e sid j s = Normal s1"
  by (simp add: remove_contact_def Let_def saveContacts_returns split: option.splits)

lemma remove_contact_absent_after:
  assumes "remove_contact e sid j s = Normal s1"
  shows "map_of (trackers s1) j = None"
  using assms
  by (auto simp: remove_contact_def Let_def saveContacts_returns socket_emit_def
      console_error_def AList.delete_conv' split: option.splits)

text \<open>Removing a contact twice leaves what removing it once leaves.\<close>

lemma remove_contact_twice:
  assumes "remove_contact e1 sid1 j s = Normal s1"
  shows "remove_contact e2 sid2 j s1 = Normal s1"
  using remove_contact_absent_after [OF assms] by (simp add: remove_contact_def)

text \<open>The removal stops the tracker object the entry names, and no other: the store
  keeps its length, the named object becomes the stopped one, every other object is as
  it was.\<close>

lemma remove_contact_objects:
  assumes "remove_contact e sid j s = Normal s1" and "map_of (trackers s) j = Some entry"
  shows "objects s1 =
           (if tracker entry < length (objects s)
            then (objects s)[tracker entry := stopTracking (objects s ! tracker entry)]
            else objects s)"
  using assms
  by (auto simp: remove_contact_def Let_def saveContacts_returns socket_emit_def
      console_error_def split: option.splits)

lemma remove_contact_stops_registered:
  assumes "remove_contact e sid j s = Normal s1" and "map_of (trackers s) j = Some entry"
    and "obj_at (objects s) (tracker entry) = Some t"
  shows "obj_at (objects s1) (tracker entry) = Some (stopTracking t)"
    and "r \<noteq> tracker entry \<Longrightarrow> obj_at (objects s1) r = obj_at (objects s) r"
  using assms(3) unfolding remove_contact_objects [OF assms(1,2)]
  by (auto simp: obj_at_def split: if_splits)

text \<open>
  C6. The claim: removing a tracked target twice has the effect of removing it once, and
  no sample is emitted for the target after either call. The second removal does leave
  the state of the first. But the handler stops only the tracker object the entry of the
  registry names. After the number has been accepted twice the first tracker of the
  identity is in no entry; the removal leaves it running, and when it completes a probe
  cycle its callback appends the data point to the history and sends a
  \<^verbatim>\<open>tracker-update\<close> for the removed target.
\<close>

theorem C6_unregistered_tracker_emits_after_removal:
  "remove_contact example_env 7 ''551187654321@s.whatsapp.net'' example_twice
     = Normal example_removed
   \<and> remove_contact example_env 7 ''551187654321@s.whatsapp.net'' example_removed
     = Normal example_removed
   \<and> trackers example_removed = []
   \<and> map (\<lambda>t. (t_jid t, t_isTracking t)) (objects example_removed)
     = [(''551187654321@s.whatsapp.net'', True), (''551187654321@s.whatsapp.net'', False)]
   \<and> tracker_cycle example_env 1 \<lparr>devices = Some [150]\<rparr> example_removed
     = Normal example_removed
   \<and> tracker_cycle example_env 0 \<lparr>devices = Some [150]\<rparr> example_removed
     = Normal (example_removed
         \<lparr>historyCache := [''551187654321@s.whatsapp.net'' \<mapsto>
            [\<lparr>dp_jid = ''551187654321@s.whatsapp.net'', dp_platform = WhatsApp,
              dp_update = \<lparr>devices = Some [150]\<rparr>, dp_timestamp = 0\<rparr>]],
          historyFile := Some [''551187654321@s.whatsapp.net'' \<mapsto>
            [\<lparr>dp_jid = ''551187654321@s.whatsapp.net'', dp_platform = WhatsApp,
              dp_update = \<lparr>devices = Some [150]\<rparr>, dp_timestamp = 0\<rparr>]],
          emitted := emitted example_removed
            @ [(ToAll, EvTrackerUpdate
                  \<lparr>dp_jid = ''551187654321@s.whatsapp.net'', dp_platform = WhatsApp,
                   dp_update = \<lparr>devices = Some [150]\<rparr>, dp_timestamp = 0\<rparr> False)]\<rparr>)"
proof -
  have once: "remove_contact example_env 7 ''551187654321@s.whatsapp.net'' example_twice
                = Normal example_removed"
    using remove_contact_returns [of example_env 7 "''551187654321@s.whatsapp.net''" example_twice]
    by (auto simp: example_removed_def)
  have again: "remove_contact example_env 7 ''551187654321@s.whatsapp.net'' example_removed
                = Normal example_removed"
    by (simp add: example_removed_eq remove_contact_def)
  have rest: "trackers example_removed = []"
    "map (\<lambda>t. (t_jid t, t_isTracking t)) (objects example_removed)
       = [(''551187654321@s.whatsapp.net'', True), (''551187654321@s.whatsapp.net'', False)]"
    by (simp_all add: example_removed_eq)
  have stopped: "tracker_cycle example_env 1 \<lparr>devices = Some [150]\<rparr> example_removed
                   = Normal example_removed"
    by (simp add: example_removed_eq tracker_cycle_def obj_at_def)
  have running: "tracker_cycle example_env 0 \<lparr>devices = Some [150]\<rparr> example_removed
     = Normal (example_removed
         \<lparr>historyCache := [''551187654321@s.whatsapp.net'' \<mapsto>
            [\<lparr>dp_jid = ''551187654321@s.whatsapp.net'', dp_platform = WhatsApp,
              dp_update = \<lparr>devices = Some [150]\<rparr>, dp_timestamp = 0\<rparr>]],
          historyFile := Some [''551187654321@s.whatsapp.net'' \<mapsto>
            [\<lparr>dp_jid = ''551187654321@s.whatsapp.net'', dp_platform = WhatsApp,
              dp_update = \<lparr>devices = Some [150]\<rparr>, dp_timestamp = 0\<rparr>]],
          emitted := emitted example_removed
            @ [(ToAll, EvTrackerUpdate
                  \<lparr>dp_jid = ''551187654321@s.whatsapp.net'', dp_platform = WhatsApp,
                   dp_update = \<lparr>devices = Some [150]\<rparr>, dp_timestamp = 0\<rparr> False)]\<rparr>)"
    by (simp add: example_removed_eq tracker_cycle_def obj_at_def onUpdate_def
        appendHistory_def saveHistory_def writeHistoryFile_def example_env_def io_emit_def
        Let_def)
  show ?thesis
    using once again rest stopped running by simp
qed

text \<open>
  C9. The claim: the identity is the input with every character other than a digit
  deleted, followed by \<^verbatim>\<open>@s.whatsapp.net\<close>, so that of two inputs that differ only in
  such characters the second is rejected as a duplicate while the first is tracked. The
  two inputs \<^verbatim>\<open>+55 (11) 98765-4321\<close> and \<^verbatim>\<open>5511987654321\<close> do have the same
  derived identity. The first is added and is tracked, under the identity the network
  returned; the second then passes the guard, which looks for the derived identity:
  no error is sent and a second tracker is started.
\<close>

theorem C9_second_input_accepted:
  "differ_only_in_nondigits ''+55 (11) 98765-4321'' ''5511987654321''
   \<and> targetJid ''+55 (11) 98765-4321'' = ''5511987654321@s.whatsapp.net''
   \<and> targetJid ''5511987654321'' = ''5511987654321@s.whatsapp.net''
   \<and> add_contact renaming_env ''+55 (11) 98765-4321'' example_connected = Normal example_once
   \<and> trackers example_once
     = [(''551187654321@s.whatsapp.net'', \<lparr>tracker = 0, platform = WhatsApp\<rparr>)]
   \<and> map t_isTracking (objects example_once) = [True]
   \<and> add_contact renaming_env ''5511987654321'' example_once = Normal example_twice
   \<and> filter (\<lambda>(to, ev). case ev of EvError j m \<Rightarrow> True | _ \<Rightarrow> False) (emitted example_twice) = []
   \<and> map t_isTracking (objects example_twice) = [True, True]"
proof -
  have first: "add_contact renaming_env ''+55 (11) 98765-4321'' example_connected
                 = Normal example_once"
    unfolding example_once_eq example_connected_eq
    by (simp add: tracking_defs example_env_def renaming_env_def)
  have second: "add_contact renaming_env ''5511987654321'' example_once = Normal example_twice"
    by (simp add: example_twice_def add_contact_def startTrackingWhatsApp_def)
  show ?thesis
    using first second
    by (simp add: example_once_eq example_twice_eq targetJid_def isDigit_def)
qed

text \<open>Two requests for one number that overlap: the second begins while the first waits
  for the network. Both pass the guard, and both register a tracker.\<close>

lemma overlapping_requests_both_accepted:
  "tracking_begin ''12345678900'' True example_connected
     = (example_connected,
        Some \<lparr>c_cleanNumber = ''12345678900'', c_targetJid = ''12345678900@s.whatsapp.net'',
              c_emitError = True\<rparr>)
   \<and> map (\<lambda>t. (t_jid t, t_isTracking t))
       (objects
          (tracking_continue example_env
             \<lparr>c_cleanNumber = ''12345678900'', c_targetJid = ''12345678900@s.whatsapp.net'',
              c_emitError = True\<rparr>
             (tracking_continue example_env
                \<lparr>c_cleanNumber = ''12345678900'', c_targetJid = ''12345678900@s.whatsapp.net'',
                 c_emitError = True\<rparr>
                example_connected)))
     = [(''12345678900@s.whatsapp.net'', True), (''12345678900@s.whatsapp.net'', True)]"
  unfolding example_connected_eq
  by (simp add: tracking_defs example_env_def)


section \<open>Reconnection\<close>

text \<open>No stretch of a tracking call and no update of the connection touches a tracker
  object that exists: the store of objects only grows.\<close>

lemma fold_io_emit_objects:
  "objects (fold (\<lambda>data. io_emit (f data)) ds s) = objects s"
  by (induction ds arbitrary: s) (auto simp: io_emit_def)

lemma catch_error_objects: "objects (catch_error c err s) = objects s"
  by (simp add: catch_error_def console_error_def io_emit_def Let_def)

lemma not_on_WhatsApp_objects: "objects (not_on_WhatsApp c s) = objects s"
  by (simp add: not_on_WhatsApp_def io_emit_def)

lemma tracking_begin_objects:
  "objects (fst (tracking_begin n b s)) = objects s"
  by (simp add: tracking_begin_def Let_def io_emit_def catch_error_objects
      split: option.splits)

lemma tracking_exists_objects:
  "\<exists>xs. objects (fst (tracking_exists c reply s)) = objects s @ xs"
  by (simp add: tracking_exists_def Let_def fold_io_emit_objects catch_error_objects
      not_on_WhatsApp_objects split: sum.splits option.splits)

lemma tracking_picture_objects:
  "objects (fst (tracking_picture c reply s)) = objects s"
  by (simp add: tracking_picture_def catch_error_objects split: sum.splits)

lemma tracking_name_objects:
  "objects (tracking_name e c j pp reply s) = objects s"
  by (simp add: tracking_name_def Let_def saveContacts_returns io_emit_def console_error_def
      split: option.splits)

lemma tracking_continue_objects:
  "\<exists>xs. objects (tracking_continue e c s) = objects s @ xs"
proof -
  obtain s1 w1 where r1: "tracking_exists c (onWhatsApp e (c_targetJid c)) s = (s1, w1)"
    by (cases "tracking_exists c (onWhatsApp e (c_targetJid c)) s")
  obtain xs where o1: "objects s1 = objects s @ xs"
    using tracking_exists_objects [of c "onWhatsApp e (c_targetJid c)" s] r1 by auto
  show ?thesis
  proof (cases w1)
    case None
    then show ?thesis using r1 o1 by (simp add: tracking_continue_def)
  next
    case (Some j)
    obtain s2 w2 where r2: "tracking_picture c (getProfilePicture e j) s1 = (s2, w2)"
      by (cases "tracking_picture c (getProfilePicture e j) s1")
    have o2: "objects s2 = objects s1"
      using tracking_picture_objects [of c "getProfilePicture e j" s1] r2 by simp
    show ?thesis
      using r1 r2 Some o1 o2
      by (cases w2) (simp_all add: tracking_continue_def tracking_name_objects)
  qed
qed

lemma startTrackingWhatsApp_objects:
  assumes "startTrackingWhatsApp e n b s = Normal s'"
  shows "\<exists>xs. objects s' = objects s @ xs"
proof -
  obtain s0 w where r: "tracking_begin n b s = (s0, w)"
    by (cases "tracking_begin n b s")
  have o0: "objects s0 = objects s"
    using tracking_begin_objects [of n b s] r by simp
  show ?thesis
    using assms r o0 tracking_continue_objects [of e _ s0]
    by (cases w) (auto simp: startTrackingWhatsApp_def)
qed

lemma restore_begin_objects:
  "objects (fst (restore_begin js s)) = objects s"
proof (induction js arbitrary: s)
  case Nil
  then show ?case by simp
next
  case (Cons j js)
  obtain s0 w where r: "tracking_begin (before_at j) False s = (s0, w)"
    by (cases "tracking_begin (before_at j) False s")
  have o0: "objects s0 = objects s"
    using tracking_begin_objects [of "before_at j" False s] r by simp
  show ?case
    using Cons.IH [of s] Cons.IH [of s0] r o0
    by (cases w) (auto split: prod.splits)
qed

lemma fold_tracking_continue_objects:
  "\<exists>xs. objects (fold (tracking_continue e) cs s) = objects s @ xs"
proof (induction cs arbitrary: s)
  case Nil
  then show ?case by simp
next
  case (Cons c cs)
  obtain xs where "objects (tracking_continue e c s) = objects s @ xs"
    using tracking_continue_objects by blast
  moreover obtain ys where
    "objects (fold (tracking_continue e) cs (tracking_continue e c s))
       = objects (tracking_continue e c s) @ ys"
    using Cons.IH by blast
  ultimately show ?case by simp
qed

lemma restore_trackers_objects:
  "\<exists>xs. objects (restore_trackers e js s) = objects s @ xs"
proof -
  obtain s' cs where r: "restore_begin js s = (s', cs)"
    by (cases "restore_begin js s")
  have "objects s' = objects s"
    using restore_begin_objects [of js s] r by simp
  then show ?thesis
    using r fold_tracking_continue_objects [of e cs s']
    by (simp add: restore_trackers_def)
qed

lemma connection_update_objects:
  "\<exists>xs. objects (connection_update e u s) = objects s @ xs"
proof -
  define s1 where "s1 = (case qr u of None \<Rightarrow> s
                | Some q \<Rightarrow> if q = [] then s
                            else io_emit (EvQr q) (s\<lparr>currentWhatsAppQr := Some q\<rparr>))"
  have o1: "objects s1 = objects s"
    by (simp add: s1_def io_emit_def split: option.splits)
  consider (closed) "connection u = Some Close"
    | (opened) "connection u \<noteq> Some Close" "connection u = Some Open"
    | (other) "connection u \<noteq> Some Close" "connection u \<noteq> Some Open"
    by blast
  then show ?thesis
  proof cases
    case closed
    then have "objects (connection_update e u s) = objects s1"
      by (simp add: connection_update_def Let_def connectToWhatsApp_def s1_def)
    then show ?thesis using o1 by simp
  next
    case opened
    define s3 where "s3 = io_emit EvConnectionOpen
                            (s1\<lparr>isWhatsAppConnected := True, currentWhatsAppQr := None\<rparr>)"
    have o3: "objects s3 = objects s"
      by (simp add: s3_def io_emit_def o1)
    have "connection_update e u s = restore_trackers e (initialContacts s3) s3"
      using opened by (simp add: connection_update_def Let_def s1_def s3_def)
    then show ?thesis
      using restore_trackers_objects [of e "initialContacts s3" s3] o3 by simp
  next
    case other
    then have "connection_update e u s = s1"
      by (simp add: connection_update_def Let_def s1_def)
    then show ?thesis using o1 by simp
  qed
qed

text \<open>Every tracker object is, after any update of the connection, what it was before:
  nothing in the handler resets or re-creates the state of a tracker.\<close>

lemma connection_update_keeps_tracker_objects:
  assumes "obj_at (objects s) r = Some t"
  shows "obj_at (objects (connection_update e u s)) r = Some t"
proof -
  obtain xs where "objects (connection_update e u s) = objects s @ xs"
    using connection_update_objects by blast
  then show ?thesis
    using assms by (auto simp: obj_at_def nth_append split: if_splits)
qed

lemma example_reconnected_eq:
  "connection_update example_env open_update
     (connection_update example_env close_update example_server)
   = example_server\<lparr>sock := Some 1, socketsMade := 2,
       emitted := emitted example_server @ [(ToAll, EvConnectionOpen)]\<rparr>"
  by (simp add: example_server_eq connection_update_def close_update_def open_update_def
      example_env_def connectToWhatsApp_def io_emit_def restore_trackers_def Let_def)

text \<open>
  C3. The claim: a session that is active when the transport disconnects resumes issuing
  probes once the transport is reconnected. On the example server the contact's tracker
  was constructed on socket 0. The connection closes and \<^verbatim>\<open>connectToWhatsApp\<close> makes
  socket 1; when it opens, the registry still holds the same entry and the tracker object
  is untouched, so it is still bound to socket 0, the closed one: the handler gives the
  new socket to no existing tracker. A contact added after the reconnection gets a
  tracker on socket 1.
\<close>

theorem C3_tracker_left_on_closed_socket:
  "sock example_server = Some 0
   \<and> map (\<lambda>t. (t_jid t, t_sock t, t_isTracking t)) (objects example_server)
       = [(''12345678900@s.whatsapp.net'', 0, True)]
   \<and> sock (connection_update example_env close_update example_server) = Some 1
   \<and> isWhatsAppConnected
       (connection_update example_env open_update
          (connection_update example_env close_update example_server))
   \<and> sock (connection_update example_env open_update
          (connection_update example_env close_update example_server)) = Some 1
   \<and> trackers (connection_update example_env open_update
          (connection_update example_env close_update example_server))
       = [(''12345678900@s.whatsapp.net'', \<lparr>tracker = 0, platform = WhatsApp\<rparr>)]
   \<and> map (\<lambda>t. (t_jid t, t_sock t, t_isTracking t))
       (objects (connection_update example_env open_update
          (connection_update example_env close_update example_server)))
       = [(''12345678900@s.whatsapp.net'', 0, True)]
   \<and> (case add_contact example_env ''+44 20 7946 0958''
              (connection_update example_env open_update
                 (connection_update example_env close_update example_server)) of
         Normal s \<Rightarrow> map (\<lambda>t. (t_jid t, t_sock t, t_isTracking t)) (objects s)
       | Throw err s \<Rightarrow> [])
       = [(''12345678900@s.whatsapp.net'', 0, True), (''442079460958@s.whatsapp.net'', 1, True)]"
  unfolding example_reconnected_eq
  by (simp add: example_server_eq connection_update_def close_update_def
      example_env_def connectToWhatsApp_def tracking_defs)


section \<open>Properties of the classifier\<close>

lemma presence_transition: "presence (transition t st c) = st"
  by (simp add: transition_def)

lemma smoothedRtt_transition: "smoothedRtt (transition t st c) = smoothedRtt c"
  by (simp add: transition_def)

text \<open>The states the help page shows for its example values are the classes of those
  values against the two thresholds.\<close>

lemma exampleData_classified:
  "map (\<lambda>(rtt, st). classify example_config rtt) exampleData = map snd exampleData"
  by (simp add: exampleData_def classify_def example_config_def)

text \<open>
  C1. With ordered thresholds: a Timeout makes the state Offline whatever the smoothed
  value was; an RTT sample updates the smoothed value first and the new state is the
  class of the updated value; a value is Online exactly when it is at most the online
  threshold, Standby exactly when it is above it and at most the standby threshold, and
  Offline exactly when it is above the standby threshold.
\<close>

theorem C1_transition_rule:
  assumes "onlineThreshold cfg < standbyThreshold cfg"
  shows "presence (classifier_step cfg t c Timeout) = Offline
    \<and> smoothedRtt (classifier_step cfg t c (RttSample r)) = smooth cfg (smoothedRtt c) r
    \<and> presence (classifier_step cfg t c (RttSample r)) = classify cfg (smooth cfg (smoothedRtt c) r)
    \<and> (classify cfg x = Online \<longleftrightarrow> x \<le> onlineThreshold cfg)
    \<and> (classify cfg x = Standby \<longleftrightarrow> onlineThreshold cfg < x \<and> x \<le> standbyThreshold cfg)
    \<and> (classify cfg x = Offline \<longleftrightarrow> standbyThreshold cfg < x)"
  using assms
  by (auto simp: presence_transition smoothedRtt_transition Let_def classify_def)

theorem C1_transition_rule_witness:
  "onlineThreshold example_config < standbyThreshold example_config
   \<and> classify example_config 150 = Online
   \<and> classify example_config 500 = Standby
   \<and> classify example_config 1500 = Offline
   \<and> presence (classifier_step example_config 9
        \<lparr>smoothedRtt = 150, presence = Online, lastTransition = 0\<rparr> Timeout) = Offline
   \<and> presence (classifier_step example_config 9
        \<lparr>smoothedRtt = 150, presence = Online, lastTransition = 0\<rparr> (RttSample 1650)) = Offline"
proof -
  have h: "onlineThreshold example_config < standbyThreshold example_config"
    by (simp add: example_config_def)
  have s: "smooth example_config 150 1650 = 900"
    by (simp add: example_config_def)
  show ?thesis
    using h s
      C1_transition_rule [OF h, of 9 "\<lparr>smoothedRtt = 150, presence = Online, lastTransition = 0\<rparr>" 1650 150]
      C1_transition_rule [OF h, of 9 "\<lparr>smoothedRtt = 150, presence = Online, lastTransition = 0\<rparr>" 1650 500]
      C1_transition_rule [OF h, of 9 "\<lparr>smoothedRtt = 150, presence = Online, lastTransition = 0\<rparr>" 1650 1500]
    by (simp add: example_config_def classify_def transition_def)
qed


section \<open>The single-flight invariant of the correlator\<close>

lemma session_inv_new: "session_inv (new_session j)"
  by (simp add: session_inv_def new_session_def in_flight_def)

lemma session_inv_sendProbe:
  assumes "session_inv s" and "sendProbe t s = Inr s'"
  shows "session_inv s'"
proof -
  have slot: "outstanding s = None" and conn: "connected s"
    using assms(2) by (auto simp: sendProbe_def split: if_splits)
  define p where "p = \<lparr>probe_id = nextProbeId s, targetIdentity = target s, sentAt = t\<rparr>"
  have s': "s' = s\<lparr>outstanding := Some p, nextProbeId := Suc (nextProbeId s), sent := sent s @ [p]\<rparr>"
    using assms(2) slot conn by (simp add: sendProbe_def p_def Let_def)
  have fresh: "probe_id p \<notin> fst ` set (outcomes s)"
  proof
    assume "probe_id p \<in> fst ` set (outcomes s)"
    then have "probe_id p \<in> probe_id ` set (sent s)"
      using assms(1) by (auto simp: session_inv_def)
    then obtain q where "q \<in> set (sent s)" and "probe_id q = probe_id p" by auto
    then have "probe_id p < nextProbeId s"
      using assms(1) by (auto simp: session_inv_def)
    then show False by (simp add: p_def)
  qed
  have "in_flight s = []" using assms(1) slot by (simp add: session_inv_def)
  then have "in_flight s' = [p]"
    using fresh by (simp add: in_flight_def s')
  moreover have "\<forall>q \<in> set (sent s'). probe_id q < nextProbeId s'"
    using assms(1) by (auto simp: session_inv_def s' p_def less_Suc_eq)
  moreover have "fst ` set (outcomes s') \<subseteq> probe_id ` set (sent s')"
    using assms(1) by (auto simp: session_inv_def s')
  moreover have "distinct (map fst (outcomes s'))"
    using assms(1) by (simp add: session_inv_def s')
  ultimately show ?thesis
    by (simp add: session_inv_def s')
qed

lemma session_inv_resolve:
  assumes "session_inv s" and "outstanding s = Some p"
  shows "session_inv (s\<lparr>outstanding := None, outcomes := outcomes s @ [(probe_id p, out)]\<rparr>)"
proof -
  have fl: "in_flight s = [p]" using assms by (simp add: session_inv_def)
  then have "p \<in> set (in_flight s)" by simp
  then have p_sent: "p \<in> set (sent s)" and p_unres: "probe_id p \<notin> fst ` set (outcomes s)"
    by (auto simp: in_flight_def)
  have "filter (\<lambda>q. probe_id q \<noteq> probe_id p) (in_flight s) = []"
    using fl by simp
  then have "filter (\<lambda>q. probe_id q \<notin> fst ` set (outcomes s) \<and> probe_id q \<noteq> probe_id p) (sent s) = []"
    by (simp add: in_flight_def conj_commute)
  then have "in_flight (s\<lparr>outstanding := None, outcomes := outcomes s @ [(probe_id p, out)]\<rparr>) = []"
    by (simp add: in_flight_def conj_commute)
  then show ?thesis
    using assms(1) p_sent p_unres by (auto simp: session_inv_def)
qed

lemma session_inv_step:
  assumes "session_inv s"
  shows "session_inv (session_step s ev)"
proof (cases ev)
  case (Tick t)
  then show ?thesis
    using assms session_inv_sendProbe by (auto split: sum.splits)
next
  case (Ack pid observedAt)
  then show ?thesis
    using assms session_inv_resolve by (auto simp: onAck_def split: option.splits)
next
  case (Deadline i)
  then show ?thesis
    using assms session_inv_resolve by (auto simp: onDeadline_def split: option.splits)
next
  case Disconnected
  then show ?thesis using assms by (simp add: session_inv_def in_flight_def)
next
  case Connected
  then show ?thesis using assms by (simp add: session_inv_def in_flight_def)
qed

lemma session_inv_run:
  "session_inv s \<Longrightarrow> session_inv (session_run evs s)"
  unfolding session_run_def
  by (induction evs arbitrary: s) (auto intro: session_inv_step)

lemma distinct_rtt_samples_aux:
  "distinct (map fst outs) \<Longrightarrow>
   distinct (map fst (concat (map (\<lambda>(i, out). case out of RttSample r \<Rightarrow> [(i, r)] | Timeout \<Rightarrow> []) outs)))"
proof (induction outs)
  case Nil
  then show ?case by simp
next
  case (Cons a outs)
  obtain i out where a: "a = (i, out)" by (cases a)
  have "i \<notin> fst ` set (concat (map (\<lambda>(i, out). case out of RttSample r \<Rightarrow> [(i, r)] | Timeout \<Rightarrow> []) outs))"
    using Cons.prems a by (auto split: cycle_outcome.splits) force
  then show ?case
    using Cons a by (cases out) auto
qed

text \<open>
  C2. After any sequence of clock ticks, acks, deadlines, disconnections and
  reconnections, at most one probe request of the session is in flight, the one in the
  slot; no probe has two RTT samples; and while a request is outstanding an attempt to
  send yields AdapterBusy and the tick changes nothing.
\<close>

theorem C2_single_flight:
  "length (in_flight (session_run evs (new_session j))) \<le> 1
   \<and> in_flight (session_run evs (new_session j))
       = (case outstanding (session_run evs (new_session j)) of None \<Rightarrow> [] | Some p \<Rightarrow> [p])
   \<and> distinct (map fst (rtt_samples (session_run evs (new_session j))))
   \<and> (outstanding (session_run evs (new_session j)) \<noteq> None \<longrightarrow>
        sendProbe t (session_run evs (new_session j)) = Inl AdapterBusy
        \<and> session_step (session_run evs (new_session j)) (Tick t)
            = session_run evs (new_session j))"
proof -
  define s where "s = session_run evs (new_session j)"
  have inv: "session_inv s"
    unfolding s_def by (rule session_inv_run [OF session_inv_new])
  have fl: "in_flight s = (case outstanding s of None \<Rightarrow> [] | Some p \<Rightarrow> [p])"
    using inv by (simp add: session_inv_def)
  then have "length (in_flight s) \<le> 1"
    by (simp split: option.splits)
  moreover have "distinct (map fst (rtt_samples s))"
  proof -
    have "distinct (map fst (outcomes s))" using inv by (simp add: session_inv_def)
    then show ?thesis
      unfolding rtt_samples_def by (rule distinct_rtt_samples_aux)
  qed
  moreover have "sendProbe t s = Inl AdapterBusy \<and> session_step s (Tick t) = s"
    if "outstanding s \<noteq> None"
    using that by (simp add: sendProbe_def)
  ultimately show ?thesis
    using fl unfolding s_def by blast
qed

lemma example_run_eq:
  "session_run example_events (new_session ''j'')
     = \<lparr>target = ''j'', connected = True,
        outstanding = Some \<lparr>probe_id = 2, targetIdentity = ''j'', sentAt = 14000\<rparr>,
        nextProbeId = 3,
        sent = [\<lparr>probe_id = 0, targetIdentity = ''j'', sentAt = 0\<rparr>,
                \<lparr>probe_id = 1, targetIdentity = ''j'', sentAt = 2000\<rparr>,
                \<lparr>probe_id = 2, targetIdentity = ''j'', sentAt = 14000\<rparr>],
        outcomes = [(0, RttSample 180), (1, Timeout)]\<rparr>"
  by (simp add: example_events_def session_run_def new_session_def sendProbe_def onAck_def
      onDeadline_def matches_def Let_def)

theorem C2_single_flight_witness:
  "outstanding (session_run example_events (new_session ''j''))
     = Some \<lparr>probe_id = 2, targetIdentity = ''j'', sentAt = 14000\<rparr>
   \<and> in_flight (session_run example_events (new_session ''j''))
     = [\<lparr>probe_id = 2, targetIdentity = ''j'', sentAt = 14000\<rparr>]
   \<and> rtt_samples (session_run example_events (new_session ''j'')) = [(0, 180)]
   \<and> sendProbe 14001 (session_run example_events (new_session ''j'')) = Inl AdapterBusy
   \<and> session_step (session_run example_events (new_session ''j'')) (Tick 14001)
     = session_run example_events (new_session ''j'')"
proof -
  have out: "outstanding (session_run example_events (new_session ''j''))
               = Some \<lparr>probe_id = 2, targetIdentity = ''j'', sentAt = 14000\<rparr>"
    by (simp add: example_run_eq)
  have samples: "rtt_samples (session_run example_events (new_session ''j'')) = [(0, 180)]"
    by (simp add: example_run_eq rtt_samples_def)
  show ?thesis
    using out samples C2_single_flight [of example_events "''j''" 14001]
    by simp
qed

end
